theory Spec2Isabelle
  imports Main
begin

section \<open>JavaScript values as the theme scripts see them\<close>

text \<open>
  \<^verbatim>\<open>website/scripts/list-of-themes.js\<close> works on the documents that the TOML parser
  returns. A parsed document is a tree of plain objects: every nested table has exactly one
  owner. The model keeps a table's own enumerable properties as an association list in
  insertion order (\<open>Obj\<close>); the scripts read and write properties by name only, so the
  place that JavaScript gives to integer-like keys in an enumeration plays no role.
  Integers stand for TOML numbers (floats and datetimes do not occur in theme files and
  are left out). \<open>Builtin\<close> is what a property read finds on \<^verbatim>\<open>Object.prototype\<close> when
  the object has no own property of that name: a function, which is truthy, not a string
  and not a table. Assignments to \<^verbatim>\<open>__proto__\<close> are outside the model, and strings are
  lists of characters (one per UTF-16 code unit of the source).
\<close>

datatype jv = Undef | Str string | Num int | Bool bool | Arr "jv list"
  | Obj "(string \<times> jv) list" | Builtin

type_synonym obj = "(string \<times> jv) list"

datatype error = TypeError

definition objectPrototype :: "string list" where
  "objectPrototype = [''constructor'', ''hasOwnProperty'', ''isPrototypeOf'',
     ''propertyIsEnumerable'', ''toLocaleString'', ''toString'', ''valueOf'', ''__proto__'',
     ''__defineGetter__'', ''__defineSetter__'', ''__lookupGetter__'', ''__lookupSetter__'']"

text \<open>\<^verbatim>\<open>ob[key]\<close>: the own property, else the inherited one, else \<^verbatim>\<open>undefined\<close>.\<close>

definition getProp :: "obj \<Rightarrow> string \<Rightarrow> jv" where
  "getProp ob key = (case map_of ob key of Some v \<Rightarrow> v
     | None \<Rightarrow> if key \<in> set objectPrototype then Builtin else Undef)"

text \<open>\<^verbatim>\<open>key in ob\<close>.\<close>

definition hasProp :: "obj \<Rightarrow> string \<Rightarrow> bool" where
  "hasProp ob key = (key \<in> set (map fst ob) \<or> key \<in> set objectPrototype)"

text \<open>What \<^verbatim>\<open>!value\<close> negates: \<^verbatim>\<open>undefined\<close>, \<^verbatim>\<open>""\<close>, \<^verbatim>\<open>0\<close> and \<^verbatim>\<open>false\<close> are falsy.\<close>

fun truthy :: "jv \<Rightarrow> bool" where
  "truthy Undef = False"
| "truthy (Str s) = (s \<noteq> [])"
| "truthy (Num n) = (n \<noteq> 0)"
| "truthy (Bool b) = b"
| "truthy (Arr xs) = True"
| "truthy (Obj kvs) = True"
| "truthy Builtin = True"

text \<open>
  \<^verbatim>\<open>function isObject(item) { return item && typeof item === "object" && !Array.isArray(item); }\<close>
\<close>

fun isObject :: "jv \<Rightarrow> bool" where
  "isObject (Obj kvs) = True"
| "isObject _ = False"

text \<open>
  \<^verbatim>\<open>Object.assign(target, { [key]: v })\<close>: an existing own property keeps its place and
  takes the new value, a new one is appended.
\<close>

fun assign :: "obj \<Rightarrow> string \<Rightarrow> jv \<Rightarrow> obj" where
  "assign [] key v = [(key, v)]"
| "assign ((k, w) # kvs) key v =
     (if k = key then (k, v) # kvs else (k, w) # assign kvs key v)"

section \<open>mergeDeep\<close>

text \<open>
  \<^verbatim>\<open>
  function mergeDeep(target, ...sources) {
    if (!sources.length) return target;
    const source = sources.shift();
    if (isObject(target) && isObject(source)) {
      for (const key in source) {
        if (isObject(source[key])) {
          if (!target[key]) {
            Object.assign(target, { [key]: {} });
            mergeDeep(target[key], source[key]);
          } else {
            Object.assign(target, { [key]: source[key] });
          }
        }
      }
    }
    return mergeDeep(target, ...sources);
  }
  \<close>
  The function writes into \<open>target\<close> and returns it; the model passes the target's
  contents in and returns the contents it has afterwards. The loop visits the own
  properties of \<open>source\<close> in order; \<open>fst kv\<close> is \<^verbatim>\<open>key\<close> and \<open>snd kv\<close> is
  \<^verbatim>\<open>source[key]\<close>. In the inner call the target is the object created just before, so
  nothing else refers to it and its final contents are what ends up under \<^verbatim>\<open>target[key]\<close>.
  A property whose value is not a table has no branch in the loop: it is skipped.
\<close>

function mergeDeep :: "jv \<Rightarrow> jv list \<Rightarrow> jv" where
  "mergeDeep target [] = target"
| "mergeDeep target (source # sources) =
     mergeDeep
       (case target of
          Obj t \<Rightarrow>
            (case source of
               Obj s \<Rightarrow>
                 Obj (fold (\<lambda>kv t'.
                        if isObject (snd kv) then
                          (if \<not> truthy (getProp t' (fst kv))
                           then assign t' (fst kv) (mergeDeep (Obj []) [snd kv])
                           else assign t' (fst kv) (snd kv))
                        else t') s t)
             | _ \<Rightarrow> target)
        | _ \<Rightarrow> target)
       sources"
  by pat_completeness auto
termination
proof (relation "measure (\<lambda>(t, ss). size_list size ss)", goal_cases)
  case 1
  show ?case by simp
next
  case (2 target source sources t s kv t')
  have "(a, b) \<in> set kvs \<Longrightarrow> size b \<le> size_list (size_prod (\<lambda>x. 0) size) kvs"
    for a :: string and b :: jv and kvs
    by (induction kvs) auto
  from this [of "fst kv" "snd kv" s] 2(3)
  have "size (snd kv) \<le> size_list (size_prod (\<lambda>x. 0) size) s"
    by simp
  then show ?case using 2(2) by simp
next
  case (3 target source sources)
  show ?case by simp
qed

declare mergeDeep.simps [simp del]

section \<open>Theme documents and inheritance\<close>

text \<open>
  \<^verbatim>\<open>unmergedThemes\<close> is a list of pairs \<^verbatim>\<open>[name, document]\<close>; \<^verbatim>\<open>themeMap\<close> is a
  \<^verbatim>\<open>Map\<close> built from the same pairs, so both hold the same document objects. The store
  keeps the current contents of every document; the address of a document is its index in
  \<^verbatim>\<open>unmergedThemes\<close>. A variable that holds a theme is \<open>Some a\<close> (the document at
  address \<open>a\<close>) or \<open>None\<close> (\<^verbatim>\<open>undefined\<close>, what \<^verbatim>\<open>themeMap.get\<close> returns for an unknown
  name). A nested table is a value inside its document: \<open>mergeDeep\<close> writes to a
  document or to an object it has just created, never to a table that a document already
  holds, so that two documents which share a table after a merge cannot be told from two
  documents with equal tables.
\<close>

type_synonym store = "obj list"
type_synonym theme = "nat option"

definition deref :: "store \<Rightarrow> theme \<Rightarrow> jv" where
  "deref h r = (case r of None \<Rightarrow> Undef
     | Some a \<Rightarrow> if a < length h then Obj (h ! a) else Undef)"

text \<open>
  The call \<^verbatim>\<open>mergeDeep(inheritedTheme, theme)\<close> on two theme variables: the target document
  is overwritten in place and the call returns the target itself.
\<close>

definition mergeDeepIn :: "store \<Rightarrow> theme \<Rightarrow> theme \<Rightarrow> theme \<times> store" where
  "mergeDeepIn h target source =
     (target,
      case target of
        None \<Rightarrow> h
      | Some a \<Rightarrow>
          (case mergeDeep (deref h target) [deref h source] of
             Obj t \<Rightarrow> if a < length h then h[a := t] else h
           | _ \<Rightarrow> h))"

text \<open>
  \<^verbatim>\<open>themeMap.get(key)\<close>: \<^verbatim>\<open>new Map(pairs)\<close> keeps the last pair of each name, and only a
  string can equal a name.
\<close>

definition mapGet :: "(string \<times> nat) list \<Rightarrow> jv \<Rightarrow> theme" where
  "mapGet m key = (case key of Str s \<Rightarrow> map_of (rev m) s | _ \<Rightarrow> None)"

text \<open>
  \<^verbatim>\<open>
  const resolveInheritedTheme = ([themeName, theme]) => {
    if ("inherits" in theme) {
      // theme A inherits theme B.
      // recursively override theme B's styles with theme A's styles
      const inheritedTheme = themeMap.get(theme.inherits);
      const merged = mergeDeep(inheritedTheme, theme);
      return [themeName, mergeDeep(inheritedTheme, theme)];
    } else {
      return [themeName, theme];
    }
  };
  \<close>
  \<^verbatim>\<open>"inherits" in theme\<close> throws a TypeError when \<open>theme\<close> is \<^verbatim>\<open>undefined\<close>.
  \<open>mergeDeep\<close> is called twice, and both calls write to the store.
\<close>

definition resolveInheritedTheme ::
  "(string \<times> nat) list \<Rightarrow> store \<Rightarrow> string \<times> theme \<Rightarrow> error + ((string \<times> theme) \<times> store)" where
  "resolveInheritedTheme themeMap h e =
     (case e of (themeName, theme) \<Rightarrow>
        (case deref h theme of
           Obj doc \<Rightarrow>
             if hasProp doc ''inherits'' then
               (let inheritedTheme = mapGet themeMap (getProp doc ''inherits'');
                    (merged, h1) = mergeDeepIn h inheritedTheme theme;
                    (result, h2) = mergeDeepIn h1 inheritedTheme theme
                in Inr ((themeName, result), h2))
             else Inr ((themeName, theme), h)
         | _ \<Rightarrow> Inl TypeError))"

text \<open>\<^verbatim>\<open>list.map(resolveInheritedTheme)\<close>, left to right over the list, on one store.\<close>

fun resolveAll ::
  "(string \<times> nat) list \<Rightarrow> store \<Rightarrow> (string \<times> theme) list
     \<Rightarrow> error + ((string \<times> theme) list \<times> store)" where
  "resolveAll themeMap h [] = Inr ([], h)"
| "resolveAll themeMap h (e # es) =
     (case resolveInheritedTheme themeMap h e of
        Inl err \<Rightarrow> Inl err
      | Inr (e', h') \<Rightarrow>
          (case resolveAll themeMap h' es of
             Inl err \<Rightarrow> Inl err
           | Inr (es', h'') \<Rightarrow> Inr (e' # es', h'')))"

text \<open>
  \<^verbatim>\<open>
  const themeMap = new Map(unmergedThemes);
  const themes = unmergedThemes.map(resolveInheritedTheme).map(resolveInheritedTheme);
  \<close>
  The argument is the list of parsed files, \<^verbatim>\<open>[name, document]\<close> each.
\<close>

definition themeMapOf :: "(string \<times> obj) list \<Rightarrow> (string \<times> nat) list" where
  "themeMapOf unmergedThemes = zip (map fst unmergedThemes) [0..<length unmergedThemes]"

definition themes ::
  "(string \<times> obj) list \<Rightarrow> error + ((string \<times> theme) list \<times> store)" where
  "themes unmergedThemes =
     (let h = map snd unmergedThemes;
          entries = zip (map fst unmergedThemes) (map Some [0..<length unmergedThemes]);
          themeMap = themeMapOf unmergedThemes
      in case resolveAll themeMap h entries of
           Inl err \<Rightarrow> Inl err
         | Inr (entries1, h1) \<Rightarrow> resolveAll themeMap h1 entries1)"

section \<open>Resolving the scopes of one theme\<close>

text \<open>
  The second half of the script computes, for the theme named \<^verbatim>\<open>catppuccin_mocha\<close>, an
  object from scope names to colours and then rewrites the colours in place. A colour is
  whatever the getter returned: a primitive such as a bare string (\<open>Val\<close>), an object the
  script created itself (\<open>Ref\<close>, an address of the store: \<^verbatim>\<open>background\<close>, a
  \<^verbatim>\<open>{ fg: value }\<close>, the status line pair), or the table that the theme document at
  address \<open>t\<close> holds under a key (\<open>Own t key\<close>, the object \<^verbatim>\<open>theme[key]\<close>). Two scopes
  that resolve to the same \<open>Ref\<close> or \<open>Own\<close> share one object, and a write through one is
  seen through the other. Within one document the tables under two keys are always two
  objects, since a merge copies a table to the same key only; the writes of the
  normalization reach no document but the processed one as far as the script reads on. A
  table found inside an \<^verbatim>\<open>fg\<close> or \<^verbatim>\<open>bg\<close> channel, which no theme file has, is carried by
  value.
\<close>

datatype color = Val jv | Ref nat | Own nat string

text \<open>
  \<^verbatim>\<open>v.name\<close> and \<^verbatim>\<open>v[name]\<close> on a value: a TypeError on \<^verbatim>\<open>undefined\<close>, the property on
  a table, \<^verbatim>\<open>undefined\<close> on anything else. The members that strings and arrays have of
  their own (\<^verbatim>\<open>length\<close>, the characters, the elements) are left out: the script reads
  \<^verbatim>\<open>fg\<close> and \<^verbatim>\<open>bg\<close>, and colour names in the \<^verbatim>\<open>palette\<close>, which is a table in every
  theme file.
\<close>

definition propOf :: "jv \<Rightarrow> string \<Rightarrow> jv" where
  "propOf v name = (case v of Obj ob \<Rightarrow> getProp ob name | _ \<Rightarrow> Undef)"

definition getMember :: "jv \<Rightarrow> string \<Rightarrow> error + jv" where
  "getMember v name = (case v of Undef \<Rightarrow> Inl TypeError | _ \<Rightarrow> Inr (propOf v name))"

text \<open>The value a colour stands for, read from the store.\<close>

definition load :: "store \<Rightarrow> color \<Rightarrow> jv" where
  "load h c = (case c of
       Val v \<Rightarrow> v
     | Ref a \<Rightarrow> deref h (Some a)
     | Own t key \<Rightarrow> propOf (deref h (Some t)) key)"

text \<open>
  \<^verbatim>\<open>color.name = v\<close>. The script only assigns after it has read a string from the same
  property, so the colour is an object there; on anything else the model leaves the store
  as it is.
\<close>

definition setField :: "store \<Rightarrow> color \<Rightarrow> string \<Rightarrow> jv \<Rightarrow> color \<times> store" where
  "setField h c name v = (case c of
       Val w \<Rightarrow> (case w of Obj ob \<Rightarrow> (Val (Obj (assign ob name v)), h) | _ \<Rightarrow> (c, h))
     | Ref a \<Rightarrow> (c, if a < length h then h[a := assign (h ! a) name v] else h)
     | Own t key \<Rightarrow>
         (c, case deref h (Some t) of
               Obj doc \<Rightarrow>
                 (case getProp doc key of
                    Obj ob \<Rightarrow> h[t := assign doc key (Obj (assign ob name v))]
                  | _ \<Rightarrow> h)
             | _ \<Rightarrow> h))"

text \<open>An object literal evaluated by the script gets the next free address.\<close>

definition alloc :: "store \<Rightarrow> obj \<Rightarrow> color \<times> store" where
  "alloc h ob = (Ref (length h), h @ [ob])"

text \<open>
  A value of \<^verbatim>\<open>theme[key]\<close> returned as a colour: the table itself, or the primitive.
\<close>

definition asColor :: "nat \<Rightarrow> string \<Rightarrow> jv \<Rightarrow> color" where
  "asColor t key v = (case v of Obj ob \<Rightarrow> Own t key | _ \<Rightarrow> Val v)"

text \<open>\<^verbatim>\<open>theme[key]\<close> for the theme document at address \<open>t\<close>.\<close>

definition themeProp :: "store \<Rightarrow> nat \<Rightarrow> string \<Rightarrow> jv" where
  "themeProp h t key = propOf (deref h (Some t)) key"

text \<open>
  \<^verbatim>\<open>
  const background = {
    bg: theme["ui.background"].bg,
    fg: theme["ui.background"].fg || "#ffaaaa",
  };
  \<close>
  Reading \<^verbatim>\<open>.bg\<close> throws when the theme is \<^verbatim>\<open>undefined\<close> or has no
  \<^verbatim>\<open>ui.background\<close>.
\<close>

definition background :: "store \<Rightarrow> theme \<Rightarrow> error + obj" where
  "background h theme =
     (case getMember (deref h theme) ''ui.background'' of
        Inl err \<Rightarrow> Inl err
      | Inr uiBackground \<Rightarrow>
          (case getMember uiBackground ''bg'' of
             Inl err \<Rightarrow> Inl err
           | Inr bg \<Rightarrow>
               (case getMember uiBackground ''fg'' of
                  Inl err \<Rightarrow> Inl err
                | Inr fg \<Rightarrow>
                    Inr [(''bg'', bg), (''fg'', if truthy fg then fg else Str ''#ffaaaa'')])))"

text \<open>
  \<^verbatim>\<open>
  const getColor = (key, fallback) => {
    const value = theme[key];
    if (typeof value === "string") {
      return { fg: value };
    } else if (!value) {
      return fallback();
    }
    return value;
  };
  \<close>
  \<^verbatim>\<open>getFallbackColor\<close> has the same body. A getter takes the store and returns the colour
  with the store after its allocations; \<open>t\<close> is the address of \<^verbatim>\<open>theme\<close> and \<open>b\<close> the
  address of \<^verbatim>\<open>background\<close>.
\<close>

type_synonym getter = "store \<Rightarrow> color \<times> store"

definition getColor :: "nat \<Rightarrow> string \<Rightarrow> getter \<Rightarrow> getter" where
  "getColor t key fallback h =
     (let v = themeProp h t key in
      case v of
        Str s \<Rightarrow> alloc h [(''fg'', v)]
      | _ \<Rightarrow> if \<not> truthy v then fallback h else (asColor t key v, h))"

definition getFallbackColor :: "nat \<Rightarrow> string \<Rightarrow> getter \<Rightarrow> getter" where
  "getFallbackColor t primaryKey fallbackFn h =
     (let v = themeProp h t primaryKey in
      case v of
        Str s \<Rightarrow> alloc h [(''fg'', v)]
      | _ \<Rightarrow> if \<not> truthy v then fallbackFn h else (asColor t primaryKey v, h))"

text \<open>\<^verbatim>\<open>() => background.fg\<close>: the value of the channel, not a pair.\<close>

definition backgroundFg :: "nat \<Rightarrow> getter" where
  "backgroundFg b h = (Val (propOf (deref h (Some b)) ''fg''), h)"

definition getUiBackground :: "nat \<Rightarrow> getter" where
  "getUiBackground b h = (Ref b, h)"

definition getVariable :: "nat \<Rightarrow> nat \<Rightarrow> getter" where
  "getVariable t b = getColor t ''variable'' (backgroundFg b)"

definition getFunction :: "nat \<Rightarrow> nat \<Rightarrow> getter" where
  "getFunction t b = getFallbackColor t ''function'' (getVariable t b)"

definition getMacro :: "nat \<Rightarrow> nat \<Rightarrow> getter" where
  "getMacro t b = getFallbackColor t ''function.macro'' (getFunction t b)"

definition getKeyword :: "nat \<Rightarrow> nat \<Rightarrow> getter" where
  "getKeyword t b = getFallbackColor t ''keyword'' (getVariable t b)"

definition getUiLinenr :: "nat \<Rightarrow> nat \<Rightarrow> getter" where
  "getUiLinenr t b = getColor t ''ui.linenr'' (backgroundFg b)"

definition getHighlight :: "nat \<Rightarrow> nat \<Rightarrow> getter" where
  "getHighlight t b = getColor t ''ui.highlight'' (getUiBackground b)"

definition getUiLinenrSelected :: "nat \<Rightarrow> nat \<Rightarrow> getter" where
  "getUiLinenrSelected t b = getFallbackColor t ''ui.linenr.selected'' (getHighlight t b)"

definition getOperator :: "nat \<Rightarrow> nat \<Rightarrow> getter" where
  "getOperator t b = getColor t ''operator'' (backgroundFg b)"

definition getPunctuation :: "nat \<Rightarrow> nat \<Rightarrow> getter" where
  "getPunctuation t b = getColor t ''punctuation'' (backgroundFg b)"

definition getConstant :: "nat \<Rightarrow> nat \<Rightarrow> getter" where
  "getConstant t b = getFallbackColor t ''constant'' (getVariable t b)"

definition getConstantNumeric :: "nat \<Rightarrow> nat \<Rightarrow> getter" where
  "getConstantNumeric t b = getFallbackColor t ''constant.numeric'' (getConstant t b)"

definition getPunctuationDelimiter :: "nat \<Rightarrow> nat \<Rightarrow> getter" where
  "getPunctuationDelimiter t b =
     getFallbackColor t ''punctuation.delimiter'' (getPunctuation t b)"

definition getVariableParameter :: "nat \<Rightarrow> nat \<Rightarrow> getter" where
  "getVariableParameter t b = getFallbackColor t ''variable.parameter'' (getVariable t b)"

definition getComment :: "nat \<Rightarrow> nat \<Rightarrow> getter" where
  "getComment t b = getColor t ''comment'' (backgroundFg b)"

definition getType :: "nat \<Rightarrow> nat \<Rightarrow> getter" where
  "getType t b = getFallbackColor t ''type'' (getVariable t b)"

definition getTypeBuiltin :: "nat \<Rightarrow> nat \<Rightarrow> getter" where
  "getTypeBuiltin t b = getFallbackColor t ''type.builtin'' (getType t b)"

text \<open>
  \<^verbatim>\<open>
  const getUiStatusline = () => {
    const uiStatusline = theme["ui.statusline"];
    if (!uiStatusline) return {};
    return {
      fg: uiStatusline.fg || background.fg,
      bg: uiStatusline.bg || background.bg,
    };
  };
  \<close>
\<close>

definition orElse :: "jv \<Rightarrow> jv \<Rightarrow> jv" where
  "orElse x y = (if truthy x then x else y)"

definition getUiStatusline :: "nat \<Rightarrow> nat \<Rightarrow> getter" where
  "getUiStatusline t b h =
     (let uiStatusline = themeProp h t ''ui.statusline'';
          bgd = deref h (Some b)
      in if \<not> truthy uiStatusline then alloc h []
         else alloc h
           [(''fg'', orElse (propOf uiStatusline ''fg'') (propOf bgd ''fg'')),
            (''bg'', orElse (propOf uiStatusline ''bg'') (propOf bgd ''bg''))])"

definition getUiCursorline :: "nat \<Rightarrow> nat \<Rightarrow> getter" where
  "getUiCursorline t b = getFallbackColor t ''ui.cursorline'' (getHighlight t b)"

definition getUiCursorlinePrimary :: "nat \<Rightarrow> nat \<Rightarrow> getter" where
  "getUiCursorlinePrimary t b =
     getFallbackColor t ''ui.cursorline.primary'' (getUiCursorline t b)"

definition getUiVirtualInlayHint :: "nat \<Rightarrow> nat \<Rightarrow> getter" where
  "getUiVirtualInlayHint t b = getColor t ''ui.virtual.inlay-hint'' (backgroundFg b)"

definition getUiVirtual :: "nat \<Rightarrow> nat \<Rightarrow> getter" where
  "getUiVirtual t b = getFallbackColor t ''ui.virtual'' (getUiVirtualInlayHint t b)"

text \<open>\<^verbatim>\<open>getFallbackColor("ui.cursor.primary", () => background.fg)\<close>\<close>

definition getUiCursor :: "nat \<Rightarrow> nat \<Rightarrow> getter" where
  "getUiCursor t b = getFallbackColor t ''ui.cursor.primary'' (backgroundFg b)"

definition getUiVirtualIndentGuide :: "nat \<Rightarrow> nat \<Rightarrow> getter" where
  "getUiVirtualIndentGuide t b =
     getFallbackColor t ''ui.virtual.indent-guide'' (getUiVirtualInlayHint t b)"

definition getUiVirtualRuler :: "nat \<Rightarrow> nat \<Rightarrow> getter" where
  "getUiVirtualRuler t b =
     getFallbackColor t ''ui.virtual.ruler'' (getUiVirtualIndentGuide t b)"

text \<open>
  The object literal that the \<^verbatim>\<open>flatMap\<close> callback returns as the third component: its
  properties in the order written, each value computed by calling its getter.
\<close>

definition scopeGetters :: "nat \<Rightarrow> nat \<Rightarrow> (string \<times> getter) list" where
  "scopeGetters t b =
     [(''ui.background'', getUiBackground b),
      (''keyword'', getKeyword t b),
      (''variable'', getVariable t b),
      (''variable.parameter'', getVariableParameter t b),
      (''ui.statusline'', getUiStatusline t b),
      (''ui.linenr'', getUiLinenr t b),
      (''function'', getFunction t b),
      (''function.macro'', getMacro t b),
      (''operator'', getOperator t b),
      (''punctuation'', getPunctuation t b),
      (''punctuation.delimiter'', getPunctuationDelimiter t b),
      (''constant'', getConstant t b),
      (''constant.numeric'', getConstantNumeric t b),
      (''comment'', getComment t b),
      (''type.builtin'', getTypeBuiltin t b),
      (''ui.cursorline.primary'', getUiCursorlinePrimary t b),
      (''ui.linenr.selected'', getUiLinenrSelected t b),
      (''ui.virtual.ruler'', getUiVirtualRuler t b),
      (''ui.virtual'', getUiVirtual t b),
      (''ui.cursor'', getUiCursor t b)]"

fun callGetters :: "(string \<times> getter) list \<Rightarrow> store \<Rightarrow> (string \<times> color) list \<times> store" where
  "callGetters [] h = ([], h)"
| "callGetters ((scope, g) # gs) h =
     (case g h of (c, h') \<Rightarrow>
        (case callGetters gs h' of (cs, h'') \<Rightarrow> ((scope, c) # cs, h'')))"

text \<open>
  The \<^verbatim>\<open>flatMap\<close> callback on one \<^verbatim>\<open>[themeName, theme]\<close>: nothing for any other name,
  else \<^verbatim>\<open>[[themeName, theme.palette, { ... }]]\<close>. The object \<^verbatim>\<open>background\<close> takes
  the next free address, \<open>length h\<close>.
\<close>

type_synonym resolved = "string \<times> jv \<times> (string \<times> color) list"

definition resolveScopes :: "store \<Rightarrow> string \<times> theme \<Rightarrow> error + (resolved list \<times> store)" where
  "resolveScopes h e =
     (case e of (themeName, theme) \<Rightarrow>
        if themeName \<noteq> ''catppuccin_mocha'' then Inr ([], h)
        else
          (case background h theme of
             Inl err \<Rightarrow> Inl err
           | Inr bgd \<Rightarrow>
               (case theme of
                  None \<Rightarrow> Inl TypeError
                | Some t \<Rightarrow>
                    (case callGetters (scopeGetters t (length h)) (h @ [bgd]) of
                       (scopes, h') \<Rightarrow>
                         Inr ([(themeName, themeProp h t ''palette'', scopes)], h')))))"

text \<open>\<^verbatim>\<open>themes.flatMap(...)\<close>, left to right on one store.\<close>

fun resolveScopesAll ::
  "store \<Rightarrow> (string \<times> theme) list \<Rightarrow> error + (resolved list \<times> store)" where
  "resolveScopesAll h [] = Inr ([], h)"
| "resolveScopesAll h (e # es) =
     (case resolveScopes h e of
        Inl err \<Rightarrow> Inl err
      | Inr (rs, h') \<Rightarrow>
          (case resolveScopesAll h' es of
             Inl err \<Rightarrow> Inl err
           | Inr (rs', h'') \<Rightarrow> Inr (rs @ rs', h'')))"

section \<open>Palette normalization\<close>

text \<open>
  \<^verbatim>\<open>
  Object.entries(theme).map(([scope, color]) => {
    const isHex = (s) => s.startsWith("#");
    if (typeof color.fg === "string") {
      if (!isHex(color.fg)) {
        color.fg = palette[color.fg];
      }
    }
    if (typeof color.bg === "string") {
      if (!isHex(color.bg)) {
        color.bg = palette[color.bg];
      }
    }
    return [scope, color];
  })
  \<close>
  \<open>normalizeField\<close> is one of the two \<^verbatim>\<open>if\<close> statements, \<open>normalizeColor\<close> the callback.
  \<^verbatim>\<open>palette[name]\<close> throws when the theme has no \<^verbatim>\<open>palette\<close>.
\<close>

definition isHex :: "string \<Rightarrow> bool" where
  "isHex s = (case s of [] \<Rightarrow> False | c # cs \<Rightarrow> c = CHR ''#'')"

definition normalizeField ::
  "jv \<Rightarrow> string \<Rightarrow> store \<Rightarrow> color \<Rightarrow> error + (color \<times> store)" where
  "normalizeField palette name h c =
     (case getMember (load h c) name of
        Inl err \<Rightarrow> Inl err
      | Inr v \<Rightarrow>
          (case v of
             Str s \<Rightarrow>
               if \<not> isHex s then
                 (case getMember palette s of
                    Inl err \<Rightarrow> Inl err
                  | Inr w \<Rightarrow> Inr (setField h c name w))
               else Inr (c, h)
           | _ \<Rightarrow> Inr (c, h)))"

definition normalizeColor :: "jv \<Rightarrow> store \<Rightarrow> color \<Rightarrow> error + (color \<times> store)" where
  "normalizeColor palette h c =
     (case normalizeField palette ''fg'' h c of
        Inl err \<Rightarrow> Inl err
      | Inr (c', h') \<Rightarrow> normalizeField palette ''bg'' h' c')"

fun normalizeEntries ::
  "jv \<Rightarrow> store \<Rightarrow> (string \<times> color) list \<Rightarrow> error + ((string \<times> color) list \<times> store)" where
  "normalizeEntries palette h [] = Inr ([], h)"
| "normalizeEntries palette h ((scope, c) # es) =
     (case normalizeColor palette h c of
        Inl err \<Rightarrow> Inl err
      | Inr (c', h') \<Rightarrow>
          (case normalizeEntries palette h' es of
             Inl err \<Rightarrow> Inl err
           | Inr (es', h'') \<Rightarrow> Inr ((scope, c') # es', h'')))"

text \<open>
  \<^verbatim>\<open>.map(([name, palette, theme]) => Object.fromEntries(...))\<close> over the resolved themes.
\<close>

fun normalizeAll ::
  "store \<Rightarrow> resolved list \<Rightarrow> error + ((string \<times> color) list list \<times> store)" where
  "normalizeAll h [] = Inr ([], h)"
| "normalizeAll h ((name, palette, scopes) # rs) =
     (case normalizeEntries palette h scopes of
        Inl err \<Rightarrow> Inl err
      | Inr (scopes', h') \<Rightarrow>
          (case normalizeAll h' rs of
             Inl err \<Rightarrow> Inl err
           | Inr (out, h'') \<Rightarrow> Inr (scopes' # out, h'')))"

text \<open>
  The list of scope objects that \<^verbatim>\<open>.map(themeToHtml)\<close> receives, with the store they
  point into; \<^verbatim>\<open>themeToHtml\<close> reads \<^verbatim>\<open>theme[scope].fg\<close> and \<^verbatim>\<open>theme[scope].bg\<close> from
  them. \<open>fieldOf\<close> is such a read.
\<close>

definition normalizedThemes ::
  "store \<Rightarrow> (string \<times> theme) list \<Rightarrow> error + ((string \<times> color) list list \<times> store)" where
  "normalizedThemes h entries =
     (case resolveScopesAll h entries of
        Inl err \<Rightarrow> Inl err
      | Inr (rs, h') \<Rightarrow> normalizeAll h' rs)"

definition fieldOf :: "store \<Rightarrow> color \<Rightarrow> string \<Rightarrow> jv" where
  "fieldOf h c name = propOf (load h c) name"

text \<open>
  \<^verbatim>\<open>theme[scope].name\<close> as \<^verbatim>\<open>themeToHtml\<close> evaluates it on a scope object: a TypeError
  when the object has no such scope.
\<close>

definition scopeField ::
  "(string \<times> color) list \<Rightarrow> store \<Rightarrow> string \<Rightarrow> string \<Rightarrow> error + jv" where
  "scopeField scopes h scope name =
     (case map_of scopes scope of
        None \<Rightarrow> Inl TypeError
      | Some c \<Rightarrow> getMember (load h c) name)"

text \<open>
  \<^verbatim>\<open>parsedThemes\<close> from the parsed files, up to the last two calls of its chain,
  \<^verbatim>\<open>.map(themeToHtml).join("")\<close>: \<^verbatim>\<open>themeToHtml\<close> is a fixed template that pastes
  \<^verbatim>\<open>theme[scope].fg\<close> and \<^verbatim>\<open>theme[scope].bg\<close> of these scope objects into markup.
\<close>

definition parsedThemes ::
  "(string \<times> obj) list \<Rightarrow> error + ((string \<times> color) list list \<times> store)" where
  "parsedThemes unmergedThemes =
     (case themes unmergedThemes of
        Inl err \<Rightarrow> Inl err
      | Inr (entries, h) \<Rightarrow> normalizedThemes h entries)"

section \<open>The index generator for the termshot folders\<close>









section \<open>Notions used in the proofs\<close>

text \<open>
  What one \<^verbatim>\<open>if\<close> statement of the normalization callback makes of a channel value.
\<close>

definition normalized :: "jv \<Rightarrow> jv \<Rightarrow> jv" where
  "normalized palette v =
     (case v of Str s \<Rightarrow> if isHex s then v else propOf palette s | _ \<Rightarrow> v)"

text \<open>
  The colours a getter can return for the theme at address \<open>t\<close> when the script's own
  objects start at address \<open>n\<close>: a primitive, one of the script's objects, or a table of
  that theme.
\<close>

definition wfColor :: "nat \<Rightarrow> nat \<Rightarrow> color \<Rightarrow> bool" where
  "wfColor t n c = (case c of Val v \<Rightarrow> True | Ref a \<Rightarrow> n \<le> a | Own t' key \<Rightarrow> t' = t)"

definition okGetter :: "nat \<Rightarrow> nat \<Rightarrow> getter \<Rightarrow> bool" where
  "okGetter t n g =
     (\<forall>h. n < length h \<longrightarrow> (\<exists>xs. snd (g h) = h @ xs) \<and> wfColor t n (fst (g h)))"

text \<open>
  A colour whose string channels are hex literals or strings that the palette holds.
\<close>

definition goodColor :: "jv \<Rightarrow> store \<Rightarrow> color \<Rightarrow> bool" where
  "goodColor palette h c =
     (\<forall>name s. (name = ''fg'' \<or> name = ''bg'') \<longrightarrow> fieldOf h c name = Str s \<longrightarrow>
        isHex s \<or> (\<exists>key. propOf palette key = Str s))"





text \<open>
  The document that the theme at address \<open>i\<close> names in its \<^verbatim>\<open>inherits\<close> field, if it
  has one, and the themes whose chain of \<^verbatim>\<open>inherits\<close> fields leads to the theme at
  address \<open>p\<close>: these are the themes that a resolution pass can merge, directly or
  through the documents in between, into the document at \<open>p\<close>.
\<close>

definition inheritedOf :: "(string \<times> nat) list \<Rightarrow> store \<Rightarrow> nat \<Rightarrow> theme" where
  "inheritedOf themeMap h0 i =
     (if i < length h0 \<and> hasProp (h0 ! i) ''inherits''
      then mapGet themeMap (getProp (h0 ! i) ''inherits'') else None)"

inductive descends :: "(string \<times> nat) list \<Rightarrow> store \<Rightarrow> nat \<Rightarrow> nat \<Rightarrow> bool"
  for themeMap :: "(string \<times> nat) list" and h0 :: store where
  child: "inheritedOf themeMap h0 i = Some p \<Longrightarrow> descends themeMap h0 i p"
| further: "inheritedOf themeMap h0 i = Some j \<Longrightarrow> descends themeMap h0 j p
            \<Longrightarrow> descends themeMap h0 i p"



section \<open>Objects and the merge loop\<close>

lemma map_of_assign: "map_of (assign ob k v) k' = (if k' = k then Some v else map_of ob k')"
  by (induction ob k v rule: assign.induct) auto

lemma getProp_assign_same [simp]: "getProp (assign ob k v) k = v"
  by (simp add: getProp_def map_of_assign)

lemma getProp_assign_other [simp]: "k' \<noteq> k \<Longrightarrow> getProp (assign ob k v) k' = getProp ob k'"
  by (simp add: getProp_def map_of_assign)
























section \<open>Inheritance: what one resolution does\<close>

text \<open>
  Claim C3. For every theme document that has no \<^verbatim>\<open>inherits\<close> field, inheritance
  resolution returns the pair of name and document unchanged: the same document object,
  and no document of the store is written.
\<close>

theorem C3_no_inherits_identity:
  assumes "a < length h" and "\<not> hasProp (h ! a) ''inherits''"
  shows "resolveInheritedTheme themeMap h (themeName, Some a) = Inr ((themeName, Some a), h)"
  using assms by (simp add: resolveInheritedTheme_def deref_def)

theorem C3_no_inherits_identity_witness:
  "resolveInheritedTheme [(''base'', 0)] [[(''keyword'', Str ''#ff0000'')]] (''base'', Some 0)
     = Inr ((''base'', Some 0), [[(''keyword'', Str ''#ff0000'')]])"
proof -
  have "(0::nat) < length [[(''keyword'', Str ''#ff0000'')]]" by simp
  moreover have "\<not> hasProp ([[(''keyword'', Str ''#ff0000'')]] ! 0) ''inherits''"
    by (simp add: hasProp_def objectPrototype_def)
  ultimately show ?thesis by (rule C3_no_inherits_identity)
qed

text \<open>
  Claim C1 says that the merge takes every key of the child: a nested table is merged key
  by key into the parent's table, and any other value replaces the parent's value. The
  code does neither. With the parent
  \<^verbatim>\<open>{ keyword: "#0000ff", comment: { fg: "#111111", bg: "#222222" } }\<close> and the child
  \<^verbatim>\<open>{ inherits: "parent", keyword: "#ff0000", comment: { fg: "#333333" } }\<close> the resolved
  document still has the parent's \<^verbatim>\<open>keyword\<close>, because the loop of \<open>mergeDeep\<close> has
  no branch for a value that is not a table, and its \<^verbatim>\<open>comment\<close> is the child's table
  alone, without the parent's \<^verbatim>\<open>bg\<close>, because a key that the target already has is
  overwritten by the child's table instead of being merged.
\<close>

theorem C1_child_values_not_merged:
  "resolveInheritedTheme [(''parent'', 0), (''child'', 1)]
     [[(''keyword'', Str ''#0000ff''),
       (''comment'', Obj [(''fg'', Str ''#111111''), (''bg'', Str ''#222222'')])],
      [(''inherits'', Str ''parent''), (''keyword'', Str ''#ff0000''),
       (''comment'', Obj [(''fg'', Str ''#333333'')])]]
     (''child'', Some 1)
   = Inr ((''child'', Some 0),
     [[(''keyword'', Str ''#0000ff''), (''comment'', Obj [(''fg'', Str ''#333333'')])],
      [(''inherits'', Str ''parent''), (''keyword'', Str ''#ff0000''),
       (''comment'', Obj [(''fg'', Str ''#333333'')])]])"
  by code_simp




section \<open>Inheritance: the two passes\<close>








section \<open>The scope getters\<close>

lemma okGetterI:
  assumes "\<And>h. n < length h \<Longrightarrow> (\<exists>xs. snd (g h) = h @ xs) \<and> wfColor t n (fst (g h))"
  shows "okGetter t n g"
  using assms by (simp add: okGetter_def)

lemma okGetterD:
  assumes "okGetter t n g" and "n < length h" and "g h = (c, h')"
  shows "(\<exists>xs. h' = h @ xs) \<and> wfColor t n c"
  using assms by (auto simp: okGetter_def)

lemma wfColor_Val [simp]: "wfColor t n (Val v)"
  by (simp add: wfColor_def)

lemma wfColor_asColor [simp]: "wfColor t n (asColor t key v)"
  by (cases v) (simp_all add: asColor_def wfColor_def)

lemma ok_getColor:
  assumes "okGetter t n fallback"
  shows "okGetter t n (getColor t key fallback)"
proof (rule okGetterI)
  fix h :: store assume n: "n < length h"
  from assms n have fb: "(\<exists>xs. snd (fallback h) = h @ xs) \<and> wfColor t n (fst (fallback h))"
    by (simp add: okGetter_def)
  show "(\<exists>xs. snd (getColor t key fallback h) = h @ xs)
        \<and> wfColor t n (fst (getColor t key fallback h))"
  proof (cases "themeProp h t key")
    case (Str s)
    with n show ?thesis by (simp add: getColor_def alloc_def wfColor_def)
  qed (use fb in \<open>simp_all add: getColor_def\<close>)
qed

lemma getFallbackColor_eq: "getFallbackColor = getColor"
  by (intro ext) (simp add: getFallbackColor_def getColor_def)

lemma ok_backgroundFg: "okGetter t n (backgroundFg b)"
  by (simp add: okGetter_def backgroundFg_def)

lemma ok_getUiBackground: "okGetter t n (getUiBackground n)"
  by (simp add: okGetter_def getUiBackground_def wfColor_def)

lemma ok_getUiStatusline: "okGetter t n (getUiStatusline t b)"
  by (simp add: okGetter_def getUiStatusline_def alloc_def wfColor_def Let_def)

lemmas ok_chain = ok_getColor ok_backgroundFg ok_getUiBackground ok_getUiStatusline

lemma ok_scopeGetters: "\<forall>g \<in> snd ` set (scopeGetters t n). okGetter t n g"
  by (simp add: scopeGetters_def getFallbackColor_eq ok_chain
      getVariable_def getFunction_def getMacro_def getKeyword_def getUiLinenr_def
      getHighlight_def getUiLinenrSelected_def getOperator_def getPunctuation_def
      getConstant_def getConstantNumeric_def getPunctuationDelimiter_def
      getVariableParameter_def getComment_def getType_def getTypeBuiltin_def
      getUiCursorline_def getUiCursorlinePrimary_def getUiVirtualInlayHint_def
      getUiVirtual_def getUiCursor_def getUiVirtualIndentGuide_def getUiVirtualRuler_def)

lemma callGetters_ok:
  assumes "\<forall>g \<in> snd ` set gs. okGetter t n g" and "n < length h"
    and "callGetters gs h = (cs, h')"
  shows "(\<exists>xs. h' = h @ xs) \<and> (\<forall>c \<in> snd ` set cs. wfColor t n c) \<and> map fst cs = map fst gs"
  using assms
proof (induction gs arbitrary: h cs h')
  case Nil
  then show ?case by simp
next
  case (Cons sg gs)
  obtain scope g where sg: "sg = (scope, g)" by (cases sg)
  obtain c h1 where g: "g h = (c, h1)" by (cases "g h")
  obtain cs1 h2 where r: "callGetters gs h1 = (cs1, h2)" by (cases "callGetters gs h1")
  from Cons.prems(3) sg g r have cs: "cs = (scope, c) # cs1" and h': "h' = h2" by simp_all
  from Cons.prems(1) sg have okg: "okGetter t n g" by simp
  from okGetterD [OF okg Cons.prems(2) g] obtain xs where h1: "h1 = h @ xs" and wc: "wfColor t n c"
    by blast
  from Cons.prems(2) h1 have "n < length h1" by simp
  with Cons.IH [of h1 cs1 h2] Cons.prems(1) r
  have "(\<exists>ys. h2 = h1 @ ys) \<and> (\<forall>c \<in> snd ` set cs1. wfColor t n c) \<and> map fst cs1 = map fst gs"
    by simp
  with h1 wc show ?case by (auto simp: cs h' sg)
qed

lemma callGetters_snoc:
  assumes "callGetters (gs @ [(scope, g)]) h = (cs, h')"
  shows "\<exists>cs1 h1 c. callGetters gs h = (cs1, h1) \<and> g h1 = (c, h') \<and> cs = cs1 @ [(scope, c)]"
  using assms
proof (induction gs arbitrary: h cs)
  case Nil
  then show ?case by (auto split: prod.splits)
next
  case (Cons sg gs)
  obtain s0 g0 where sg: "sg = (s0, g0)" by (cases sg)
  obtain c0 h0 where g0: "g0 h = (c0, h0)" by (cases "g0 h")
  obtain cs' where r: "callGetters (gs @ [(scope, g)]) h0 = (cs', h')" and cs: "cs = (s0, c0) # cs'"
    using Cons.prems sg g0 by (auto split: prod.splits)
  from Cons.IH [OF r] obtain cs1 h1 c where "callGetters gs h0 = (cs1, h1)" "g h1 = (c, h')"
    "cs' = cs1 @ [(scope, c)]"
    by blast
  with sg g0 cs show ?case by simp
qed

lemma themeProp_append [simp]: "t < length h \<Longrightarrow> themeProp (h @ xs) t key = themeProp h t key"
  by (simp add: themeProp_def deref_def nth_append)

lemma deref_append [simp]: "a < length h \<Longrightarrow> deref (h @ xs) (Some a) = deref h (Some a)"
  by (simp add: deref_def nth_append)

lemma background_fg:
  assumes "background h (Some t) = Inr bgd"
  shows "bgd = [(''bg'', propOf (themeProp h t ''ui.background'') ''bg''),
                (''fg'', orElse (propOf (themeProp h t ''ui.background'') ''fg'') (Str ''#ffaaaa''))]"
  using assms
  by (auto simp: background_def getMember_def themeProp_def orElse_def propOf_def
      split: jv.splits if_splits)

lemma resolveScopes_other:
  "fst e \<noteq> ''catppuccin_mocha'' \<Longrightarrow> resolveScopes h e = Inr ([], h)"
  by (cases e) (simp add: resolveScopes_def)

lemma resolveScopesAll_filter:
  "resolveScopesAll h (filter (\<lambda>e. fst e = ''catppuccin_mocha'') es) = resolveScopesAll h es"
proof (induction es arbitrary: h)
  case Nil
  show ?case by simp
next
  case (Cons e es)
  show ?case
  proof (cases "fst e = ''catppuccin_mocha''")
    case True
    with Cons.IH show ?thesis by (simp split: sum.splits)
  next
    case False
    with Cons.IH [of h] resolveScopes_other [OF False, of h] show ?thesis
      by (simp split: sum.splits)
  qed
qed

lemma normalizedThemes_filter:
  "normalizedThemes h (filter (\<lambda>e. fst e = ''catppuccin_mocha'') es) = normalizedThemes h es"
  by (simp add: normalizedThemes_def resolveScopesAll_filter)

lemma resolveScopes_unfold:
  assumes "resolveScopes h (''catppuccin_mocha'', Some t) = Inr (rs, h')"
  obtains bgd scopes where
    "background h (Some t) = Inr bgd" and "t < length h"
    and "callGetters (scopeGetters t (length h)) (h @ [bgd]) = (scopes, h')"
    and "rs = [(''catppuccin_mocha'', themeProp h t ''palette'', scopes)]"
proof -
  from assms obtain bgd where bg: "background h (Some t) = Inr bgd"
    by (auto simp: resolveScopes_def split: sum.splits)
  then have t: "t < length h"
    by (auto simp: background_def getMember_def deref_def split: if_splits)
  from assms bg obtain scopes where
    "callGetters (scopeGetters t (length h)) (h @ [bgd]) = (scopes, h')"
    "rs = [(''catppuccin_mocha'', themeProp h t ''palette'', scopes)]"
    by (auto simp: resolveScopes_def split: sum.splits prod.splits)
  with bg t show ?thesis by (rule that)
qed

lemma scopeGetters_snoc:
  "scopeGetters t b = butlast (scopeGetters t b) @ [(''ui.cursor'', getUiCursor t b)]"
  by (simp add: scopeGetters_def)

lemma scopeGetters_cursor_last:
  "''ui.cursor'' \<notin> fst ` set (butlast (scopeGetters t b))"
  by (simp add: scopeGetters_def)

lemma scopeGetters_background_first:
  assumes "callGetters (scopeGetters t b) h = (scopes, h')"
  shows "map_of scopes ''ui.background'' = Some (Ref b)"
proof -
  have "scopeGetters t b = (''ui.background'', getUiBackground b) # tl (scopeGetters t b)"
    by (simp add: scopeGetters_def)
  with assms have "callGetters ((''ui.background'', getUiBackground b) # tl (scopeGetters t b)) h
      = (scopes, h')"
    by simp
  then show ?thesis
    by (auto simp: getUiBackground_def split: prod.splits)
qed

text \<open>
  Claim C7 gives the spec's example: for the theme
  \<^verbatim>\<open>{ "ui.background": {bg:"#111111", fg:"#eeeeee"}, "keyword": "#ff0000", palette: {} }\<close>
  the resolved scopes have \<^verbatim>\<open>variable.fg == "#eeeeee"\<close>, \<^verbatim>\<open>keyword.fg == "#ff0000"\<close>
  and \<^verbatim>\<open>function.fg == "#eeeeee"\<close>. Run on this theme (under the one name the script
  processes), the code resolves \<^verbatim>\<open>keyword\<close> to a pair with that \<^verbatim>\<open>fg\<close>, but
  \<^verbatim>\<open>variable\<close>, \<^verbatim>\<open>function\<close> and \<^verbatim>\<open>function.macro\<close> to the bare string
  \<^verbatim>\<open>"#eeeeee"\<close>: the fallback \<^verbatim>\<open>() => background.fg\<close> returns the channel, not a
  pair, so \<^verbatim>\<open>variable.fg\<close> and \<^verbatim>\<open>function.fg\<close> are \<^verbatim>\<open>undefined\<close>.
\<close>

theorem C7_fallback_is_bare_string:
  "(case parsedThemes
      [(''catppuccin_mocha'',
        [(''ui.background'', Obj [(''bg'', Str ''#111111''), (''fg'', Str ''#eeeeee'')]),
         (''keyword'', Str ''#ff0000''),
         (''palette'', Obj [])])] of
      Inr ([scopes], h) \<Rightarrow>
        map_of scopes ''variable'' = Some (Val (Str ''#eeeeee'')) \<and>
        scopeField scopes h ''variable'' ''fg'' = Inr Undef \<and>
        scopeField scopes h ''keyword'' ''fg'' = Inr (Str ''#ff0000'') \<and>
        map_of scopes ''function'' = Some (Val (Str ''#eeeeee'')) \<and>
        scopeField scopes h ''function'' ''fg'' = Inr Undef \<and>
        map_of scopes ''function.macro'' = Some (Val (Str ''#eeeeee'')) \<and>
        scopeField scopes h ''function.macro'' ''fg'' = Inr Undef
    | _ \<Rightarrow> False)"
  by code_simp

text \<open>
  Claim C8 says that the resolved \<^verbatim>\<open>ui.cursor\<close> scope uses the theme's own
  \<^verbatim>\<open>ui.cursor\<close> value when present. The getter reads the key \<^verbatim>\<open>ui.cursor.primary\<close>
  instead: a theme that sets only \<^verbatim>\<open>ui.cursor\<close> gets the background foreground.
\<close>

theorem C8_own_cursor_ignored_counterexample:
  "(case parsedThemes
      [(''catppuccin_mocha'',
        [(''ui.background'', Obj [(''bg'', Str ''#111111''), (''fg'', Str ''#eeeeee'')]),
         (''ui.cursor'', Str ''#123456''),
         (''palette'', Obj [])])] of
      Inr ([scopes], h) \<Rightarrow>
        map_of scopes ''ui.cursor'' = Some (Val (Str ''#eeeeee'')) \<and>
        scopeField scopes h ''ui.cursor'' ''fg'' = Inr Undef
    | _ \<Rightarrow> False)"
  by code_simp

text \<open>
  Claim C8 as the code has it. For every theme that the script processes, the resolved
  \<^verbatim>\<open>ui.cursor\<close> scope is decided by the theme's \<^verbatim>\<open>ui.cursor.primary\<close> key: a string
  there gives a new pair with that string as \<^verbatim>\<open>fg\<close>, a table there is the scope itself,
  any other truthy value is returned as it is, and otherwise the scope falls back directly
  to the background foreground (the \<^verbatim>\<open>fg\<close> of \<^verbatim>\<open>ui.background\<close>, or
  \<^verbatim>\<open>"#ffaaaa"\<close>), whatever \<^verbatim>\<open>ui.cursor\<close> and \<^verbatim>\<open>ui.highlight\<close> hold.
\<close>

theorem C8_cursor_primary:
  assumes "resolveScopes h (''catppuccin_mocha'', Some t) = Inr ([(name, palette, scopes)], h')"
  shows "\<exists>c. map_of scopes ''ui.cursor'' = Some c \<and>
           (case themeProp h t ''ui.cursor.primary'' of
              Str s \<Rightarrow> load h' c = Obj [(''fg'', Str s)]
            | Obj ob \<Rightarrow> c = Own t ''ui.cursor.primary''
            | v \<Rightarrow> c = Val (if truthy v then v
                             else orElse (propOf (themeProp h t ''ui.background'') ''fg'')
                                         (Str ''#ffaaaa'')))"
proof -
  from assms obtain bgd where
    bg: "background h (Some t) = Inr bgd" and t: "t < length h"
    and cg: "callGetters (scopeGetters t (length h)) (h @ [bgd]) = (scopes, h')"
    by (rule resolveScopes_unfold) simp
  define gs where "gs = butlast (scopeGetters t (length h))"
  have gs: "scopeGetters t (length h) = gs @ [(''ui.cursor'', getUiCursor t (length h))]"
    unfolding gs_def by (rule scopeGetters_snoc)
  have nin: "''ui.cursor'' \<notin> fst ` set gs"
    unfolding gs_def by (rule scopeGetters_cursor_last)
  have sub: "\<forall>g \<in> snd ` set gs. g \<in> snd ` set (scopeGetters t (length h))"
    unfolding gs_def by (auto dest: in_set_butlastD)
  from callGetters_snoc [OF cg [unfolded gs]] obtain cs1 h1 c where
    1: "callGetters gs (h @ [bgd]) = (cs1, h1)" and 2: "getUiCursor t (length h) h1 = (c, h')"
    and 3: "scopes = cs1 @ [(''ui.cursor'', c)]"
    by blast
  from sub ok_scopeGetters [of t "length h"]
  have "\<forall>g \<in> snd ` set gs. okGetter t (length h) g" by blast
  from callGetters_ok [OF this _ 1] obtain xs where h1: "h1 = (h @ [bgd]) @ xs"
    and names: "map fst cs1 = map fst gs"
    by auto
  from names nin have "''ui.cursor'' \<notin> fst ` set cs1"
    by (metis set_map)
  then have m: "map_of scopes ''ui.cursor'' = Some c"
    by (simp add: 3 map_add_Some_iff map_of_eq_None_iff)
  have tp: "themeProp h1 t key = themeProp h t key" for key
    using t by (simp add: h1)
  have bf: "propOf (deref h1 (Some (length h))) ''fg''
            = orElse (propOf (themeProp h t ''ui.background'') ''fg'') (Str ''#ffaaaa'')"
    by (simp add: h1 deref_def nth_append background_fg [OF bg] propOf_def getProp_def)
  have "case themeProp h t ''ui.cursor.primary'' of
              Str s \<Rightarrow> load h' c = Obj [(''fg'', Str s)]
            | Obj ob \<Rightarrow> c = Own t ''ui.cursor.primary''
            | v \<Rightarrow> c = Val (if truthy v then v
                             else orElse (propOf (themeProp h t ''ui.background'') ''fg'')
                                         (Str ''#ffaaaa''))"
  proof (cases "themeProp h t ''ui.cursor.primary''")
    case (Str s)
    with 2 have "c = Ref (length h1)" "h' = h1 @ [[(''fg'', Str s)]]"
      by (auto simp: getUiCursor_def getFallbackColor_def tp alloc_def)
    with Str show ?thesis by (simp add: load_def deref_def)
  qed (use 2 in \<open>auto simp: getUiCursor_def getFallbackColor_def tp backgroundFg_def bf
        asColor_def\<close>)
  with m show ?thesis by blast
qed

theorem C8_cursor_primary_witness:
  "\<exists>c. map_of
          [(''ui.background'', Ref 1), (''keyword'', Val (Str ''#eeeeee'')),
           (''variable'', Val (Str ''#eeeeee'')), (''variable.parameter'', Val (Str ''#eeeeee'')),
           (''ui.statusline'', Ref 2), (''ui.linenr'', Val (Str ''#eeeeee'')),
           (''function'', Val (Str ''#eeeeee'')), (''function.macro'', Val (Str ''#eeeeee'')),
           (''operator'', Val (Str ''#eeeeee'')), (''punctuation'', Val (Str ''#eeeeee'')),
           (''punctuation.delimiter'', Val (Str ''#eeeeee'')), (''constant'', Val (Str ''#eeeeee'')),
           (''constant.numeric'', Val (Str ''#eeeeee'')), (''comment'', Val (Str ''#eeeeee'')),
           (''type.builtin'', Val (Str ''#eeeeee'')), (''ui.cursorline.primary'', Ref 1),
           (''ui.linenr.selected'', Ref 1), (''ui.virtual.ruler'', Val (Str ''#eeeeee'')),
           (''ui.virtual'', Val (Str ''#eeeeee'')), (''ui.cursor'', Ref 3)]
          ''ui.cursor'' = Some c
     \<and> load
          [[(''ui.background'', Obj [(''bg'', Str ''#111111''), (''fg'', Str ''#eeeeee'')]),
            (''ui.cursor.primary'', Str ''#f5e0dc'')],
           [(''bg'', Str ''#111111''), (''fg'', Str ''#eeeeee'')],
           [],
           [(''fg'', Str ''#f5e0dc'')]] c = Obj [(''fg'', Str ''#f5e0dc'')]"
proof -
  let ?h = "[[(''ui.background'', Obj [(''bg'', Str ''#111111''), (''fg'', Str ''#eeeeee'')]),
            (''ui.cursor.primary'', Str ''#f5e0dc'')]]"
  have r: "resolveScopes ?h (''catppuccin_mocha'', Some 0) =
    Inr ([(''catppuccin_mocha'', Undef,
          [(''ui.background'', Ref 1), (''keyword'', Val (Str ''#eeeeee'')),
           (''variable'', Val (Str ''#eeeeee'')), (''variable.parameter'', Val (Str ''#eeeeee'')),
           (''ui.statusline'', Ref 2), (''ui.linenr'', Val (Str ''#eeeeee'')),
           (''function'', Val (Str ''#eeeeee'')), (''function.macro'', Val (Str ''#eeeeee'')),
           (''operator'', Val (Str ''#eeeeee'')), (''punctuation'', Val (Str ''#eeeeee'')),
           (''punctuation.delimiter'', Val (Str ''#eeeeee'')), (''constant'', Val (Str ''#eeeeee'')),
           (''constant.numeric'', Val (Str ''#eeeeee'')), (''comment'', Val (Str ''#eeeeee'')),
           (''type.builtin'', Val (Str ''#eeeeee'')), (''ui.cursorline.primary'', Ref 1),
           (''ui.linenr.selected'', Ref 1), (''ui.virtual.ruler'', Val (Str ''#eeeeee'')),
           (''ui.virtual'', Val (Str ''#eeeeee'')), (''ui.cursor'', Ref 3)])],
         [[(''ui.background'', Obj [(''bg'', Str ''#111111''), (''fg'', Str ''#eeeeee'')]),
            (''ui.cursor.primary'', Str ''#f5e0dc'')],
           [(''bg'', Str ''#111111''), (''fg'', Str ''#eeeeee'')],
           [],
           [(''fg'', Str ''#f5e0dc'')]])"
    by code_simp
  have tp: "themeProp ?h 0 ''ui.cursor.primary'' = Str ''#f5e0dc''"
    by code_simp
  from C8_cursor_primary [OF r] show ?thesis
    unfolding tp by simp
qed

section \<open>Palette normalization\<close>

lemma load_Obj_cases:
  assumes "load h c = Obj ob"
  shows "(c = Val (Obj ob)) \<or> (\<exists>a. c = Ref a \<and> a < length h \<and> h ! a = ob)
       \<or> (\<exists>t key. c = Own t key \<and> t < length h \<and> getProp (h ! t) key = Obj ob)"
  using assms
  by (cases c) (auto simp: load_def deref_def propOf_def split: if_splits)

lemma setField_load:
  assumes "load h c = Obj ob" and "setField h c name w = (c', h')"
  shows "load h' c' = Obj (assign ob name w) \<and> length h' = length h"
  using load_Obj_cases [OF assms(1)] assms(2)
  by (auto simp: setField_def load_def deref_def propOf_def)

lemma setField_kind:
  assumes "setField h c name w = (c', h')"
  shows "(\<exists>v v'. c = Val v \<and> c' = Val v' \<and> h' = h) \<or> ((\<forall>v. c \<noteq> Val v) \<and> c' = c)"
  using assms by (cases c) (auto simp: setField_def split: jv.splits)

lemma setField_frame:
  assumes "load h c = Obj ob" and "setField h c name w = (c', h')"
    and "wfColor t n c" and "wfColor t n d" and "t < n" and "d \<noteq> c"
  shows "load h' d = load h d"
proof -
  from load_Obj_cases [OF assms(1)] consider
    (val) "c = Val (Obj ob)"
    | (ref) a where "c = Ref a" "a < length h" "h ! a = ob"
    | (own) t' key where "c = Own t' key" "t' < length h" "getProp (h ! t') key = Obj ob"
    by blast
  then show ?thesis
  proof cases
    case val
    with assms(2) show ?thesis by (simp add: setField_def)
  next
    case ref
    with assms(2) have h': "h' = h[a := assign (h ! a) name w]" by (auto simp: setField_def)
    from ref assms(3) have "n \<le> a" by (simp add: wfColor_def)
    with assms(4,5,6) ref(1) show ?thesis
      by (cases d) (auto simp: h' load_def deref_def wfColor_def)
  next
    case own
    with assms(3) have t': "t' = t" by (simp add: wfColor_def)
    from own assms(2) have h': "h' = h[t := assign (h ! t) key (Obj (assign ob name w))]"
      by (auto simp: setField_def deref_def t')
    from assms(4,5,6) own(1,2) show ?thesis
      by (cases d) (auto simp: h' t' load_def deref_def wfColor_def propOf_def)
  qed
qed

lemma normalizeField_cases:
  assumes "normalizeField palette name h c = Inr (c', h')"
  shows "(c' = c \<and> h' = h \<and> normalized palette (fieldOf h c name) = fieldOf h c name)
       \<or> (\<exists>ob s. load h c = Obj ob \<and> fieldOf h c name = Str s \<and> \<not> isHex s
             \<and> setField h c name (propOf palette s) = (c', h'))"
proof (cases "\<exists>s. fieldOf h c name = Str s \<and> \<not> isHex s")
  case True
  then obtain s where s: "fieldOf h c name = Str s" "\<not> isHex s" by blast
  then obtain ob where ob: "load h c = Obj ob" "getProp ob name = Str s"
    by (auto simp: fieldOf_def propOf_def split: jv.splits)
  from assms s ob have "setField h c name (propOf palette s) = (c', h')"
    by (auto simp: normalizeField_def getMember_def propOf_def split: jv.splits sum.splits)
  with s ob show ?thesis by blast
next
  case False
  with assms have "c' = c \<and> h' = h"
    by (auto simp: normalizeField_def getMember_def fieldOf_def propOf_def
        split: jv.splits sum.splits if_splits)
  with False show ?thesis
    by (auto simp: normalized_def split: jv.splits)
qed

lemma normalizeField_spec:
  assumes "normalizeField palette name h c = Inr (c', h')"
  shows "fieldOf h' c' name = normalized palette (fieldOf h c name)
       \<and> (\<forall>n. n \<noteq> name \<longrightarrow> fieldOf h' c' n = fieldOf h c n)
       \<and> length h' = length h"
  using normalizeField_cases [OF assms]
proof (elim disjE exE conjE)
  fix ob s
  assume "load h c = Obj ob" "fieldOf h c name = Str s" "\<not> isHex s"
    "setField h c name (propOf palette s) = (c', h')"
  with setField_load [of h c ob name "propOf palette s" c' h'] show ?thesis
    by (simp add: fieldOf_def propOf_def normalized_def)
qed simp

lemma normalizeField_kind:
  assumes "normalizeField palette name h c = Inr (c', h')"
  shows "(\<exists>v v'. c = Val v \<and> c' = Val v' \<and> h' = h) \<or> ((\<forall>v. c \<noteq> Val v) \<and> c' = c)"
  using normalizeField_cases [OF assms] setField_kind [of h c name _ c' h']
  by (cases c) auto

lemma normalizeField_frame:
  assumes "normalizeField palette name h c = Inr (c', h')"
    and "wfColor t n c" and "wfColor t n d" and "t < n" and "d \<noteq> c"
  shows "load h' d = load h d"
  using normalizeField_cases [OF assms(1)] setField_frame [OF _ _ assms(2,3,4,5)]
  by auto

lemma normalizeField_total:
  assumes "load h c \<noteq> Undef" and "palette \<noteq> Undef"
  shows "\<exists>c' h'. normalizeField palette name h c = Inr (c', h') \<and> load h' c' \<noteq> Undef"
proof (cases "\<exists>s. fieldOf h c name = Str s \<and> \<not> isHex s")
  case True
  then obtain s where s: "fieldOf h c name = Str s" "\<not> isHex s" by blast
  then obtain ob where ob: "load h c = Obj ob" "getProp ob name = Str s"
    by (auto simp: fieldOf_def propOf_def split: jv.splits)
  obtain c' h' where sf: "setField h c name (propOf palette s) = (c', h')"
    by (cases "setField h c name (propOf palette s)")
  with assms s ob have "normalizeField palette name h c = Inr (c', h')"
    by (auto simp: normalizeField_def getMember_def propOf_def split: jv.splits sum.splits)
  with setField_load [OF ob(1) sf] show ?thesis by simp
next
  case False
  with assms have "normalizeField palette name h c = Inr (c, h)"
    by (auto simp: normalizeField_def getMember_def fieldOf_def propOf_def
        split: jv.splits sum.splits if_splits)
  with assms show ?thesis by simp
qed

lemma normalizeColor_steps:
  assumes "normalizeColor palette h c = Inr (c', h')"
  obtains c1 h1 where "normalizeField palette ''fg'' h c = Inr (c1, h1)"
    and "normalizeField palette ''bg'' h1 c1 = Inr (c', h')"
  using assms by (auto simp: normalizeColor_def split: sum.splits)

lemma normalizeColor_spec:
  assumes "normalizeColor palette h c = Inr (c', h')"
  shows "fieldOf h' c' ''fg'' = normalized palette (fieldOf h c ''fg'')
       \<and> fieldOf h' c' ''bg'' = normalized palette (fieldOf h c ''bg'')
       \<and> length h' = length h"
proof -
  from assms obtain c1 h1 where 1: "normalizeField palette ''fg'' h c = Inr (c1, h1)"
    and 2: "normalizeField palette ''bg'' h1 c1 = Inr (c', h')"
    by (rule normalizeColor_steps)
  from normalizeField_spec [OF 1] normalizeField_spec [OF 2] show ?thesis by simp
qed

lemma normalizeColor_kind:
  assumes "normalizeColor palette h c = Inr (c', h')"
  shows "(\<exists>v v'. c = Val v \<and> c' = Val v' \<and> h' = h) \<or> ((\<forall>v. c \<noteq> Val v) \<and> c' = c)"
proof -
  from assms obtain c1 h1 where 1: "normalizeField palette ''fg'' h c = Inr (c1, h1)"
    and 2: "normalizeField palette ''bg'' h1 c1 = Inr (c', h')"
    by (rule normalizeColor_steps)
  from normalizeField_kind [OF 1] normalizeField_kind [OF 2] show ?thesis by auto
qed

lemma normalizeColor_frame:
  assumes "normalizeColor palette h c = Inr (c', h')"
    and "wfColor t n c" and "wfColor t n d" and "t < n" and "d \<noteq> c"
  shows "load h' d = load h d"
proof -
  from assms(1) obtain c1 h1 where 1: "normalizeField palette ''fg'' h c = Inr (c1, h1)"
    and 2: "normalizeField palette ''bg'' h1 c1 = Inr (c', h')"
    by (rule normalizeColor_steps)
  from normalizeField_kind [OF 1] show ?thesis
  proof (elim disjE exE conjE)
    fix v v' assume "c = Val v" "c1 = Val v'" "h1 = h"
    with normalizeField_kind [OF 2] show ?thesis by auto
  next
    assume "\<forall>v. c \<noteq> Val v" "c1 = c"
    with normalizeField_frame [OF 1 assms(2,3,4,5)] normalizeField_frame [OF 2 _ assms(3,4)]
      assms(2,5)
    show ?thesis by simp
  qed
qed

lemma normalized_good:
  "normalized palette v = Str s \<Longrightarrow> isHex s \<or> (\<exists>key. propOf palette key = Str s)"
  by (auto simp: normalized_def split: jv.splits if_splits)

lemma normalized_hex: "isHex s \<Longrightarrow> normalized palette (Str s) = Str s"
  by (simp add: normalized_def)

lemma normalizeColor_good:
  assumes "normalizeColor palette h c = Inr (c', h')"
  shows "goodColor palette h' c'"
  using normalizeColor_spec [OF assms] normalized_good
  unfolding goodColor_def by metis

lemma goodColor_cong: "load h' d = load h d \<Longrightarrow> goodColor palette h' d = goodColor palette h d"
  by (simp add: goodColor_def fieldOf_def)

lemma normalizeColor_preserves_good:
  assumes "normalizeColor palette h c = Inr (c', h')"
    and "wfColor t n c" and "wfColor t n d" and "t < n" and "goodColor palette h d"
  shows "goodColor palette h' d"
proof -
  from normalizeColor_kind [OF assms(1)]
  consider (val) "h' = h" | (obj) "c' = c" "d = c" | (other) "d \<noteq> c"
    by blast
  then show ?thesis
  proof cases
    case val
    with assms(5) show ?thesis by simp
  next
    case obj
    with normalizeColor_good [OF assms(1)] show ?thesis by simp
  next
    case other
    from goodColor_cong [OF normalizeColor_frame [OF assms(1,2,3,4) other]] assms(5)
    show ?thesis by simp
  qed
qed

lemma normalizeColor_wf:
  assumes "normalizeColor palette h c = Inr (c', h')" and "wfColor t n c"
  shows "wfColor t n c'"
  using normalizeColor_kind [OF assms(1)] assms(2) by auto

lemma normalizeEntries_preserves_good:
  assumes "normalizeEntries palette h es = Inr (es', h')"
    and "\<forall>c \<in> snd ` set es. wfColor t n c" and "wfColor t n d" and "t < n"
    and "goodColor palette h d"
  shows "goodColor palette h' d"
  using assms
proof (induction es arbitrary: h es')
  case Nil
  then show ?case by simp
next
  case (Cons e es)
  obtain scope c where e: "e = (scope, c)" by (cases e)
  from Cons.prems(1) e obtain c1 h1 es1 where
    1: "normalizeColor palette h c = Inr (c1, h1)" and
    2: "normalizeEntries palette h1 es = Inr (es1, h')"
    by (auto split: sum.splits)
  from Cons.prems(2) e have wc: "wfColor t n c" by simp
  from normalizeColor_preserves_good [OF 1 wc Cons.prems(3,4,5)]
  have "goodColor palette h1 d" .
  with Cons.IH [OF 2] Cons.prems(2,3,4) show ?case by simp
qed

lemma normalizeEntries_good:
  assumes "normalizeEntries palette h es = Inr (es', h')"
    and "\<forall>c \<in> snd ` set es. wfColor t n c" and "t < n"
  shows "\<forall>c' \<in> snd ` set es'. goodColor palette h' c'"
  using assms
proof (induction es arbitrary: h es')
  case Nil
  then show ?case by simp
next
  case (Cons e es)
  obtain scope c where e: "e = (scope, c)" by (cases e)
  from Cons.prems(1) e obtain c1 h1 es1 where
    1: "normalizeColor palette h c = Inr (c1, h1)" and
    2: "normalizeEntries palette h1 es = Inr (es1, h')" and
    es': "es' = (scope, c1) # es1"
    by (auto split: sum.splits)
  from Cons.prems(2) e have wc: "wfColor t n c" and wes: "\<forall>c \<in> snd ` set es. wfColor t n c"
    by simp_all
  have "goodColor palette h' c1"
    using normalizeEntries_preserves_good [OF 2 wes normalizeColor_wf [OF 1 wc] Cons.prems(3)
        normalizeColor_good [OF 1]] .
  moreover have "\<forall>c' \<in> snd ` set es1. goodColor palette h' c'"
    using Cons.IH [OF 2 wes Cons.prems(3)] .
  ultimately show ?case by (simp add: es')
qed

lemma normalizeColor_keeps_hex:
  assumes "normalizeColor palette h c = Inr (c', h')"
    and "wfColor t n c" and "t < n" and "n \<le> b"
    and "fieldOf h (Ref b) name = Str s" and "isHex s" and "name = ''fg'' \<or> name = ''bg''"
  shows "fieldOf h' (Ref b) name = Str s"
proof -
  from normalizeColor_kind [OF assms(1)]
  consider (val) "h' = h" | (same) "c' = c" "c = Ref b" | (other) "c \<noteq> Ref b"
    by blast
  then show ?thesis
  proof cases
    case val
    with assms(5) show ?thesis by simp
  next
    case same
    with normalizeColor_spec [OF assms(1)] assms(5,6,7) show ?thesis
      by (auto simp: normalized_hex)
  next
    case other
    have "wfColor t n (Ref b)" using assms(4) by (simp add: wfColor_def)
    from normalizeColor_frame [OF assms(1,2) this assms(3)] other assms(5)
    show ?thesis by (simp add: fieldOf_def)
  qed
qed

lemma normalizeEntries_keeps_hex:
  assumes "normalizeEntries palette h es = Inr (es', h')"
    and "\<forall>c \<in> snd ` set es. wfColor t n c" and "t < n" and "n \<le> b"
    and "fieldOf h (Ref b) name = Str s" and "isHex s" and "name = ''fg'' \<or> name = ''bg''"
  shows "fieldOf h' (Ref b) name = Str s"
  using assms(1,2,5)
proof (induction es arbitrary: h es')
  case Nil
  then show ?case by simp
next
  case (Cons e es)
  obtain scope c where e: "e = (scope, c)" by (cases e)
  from Cons.prems(1) e obtain c1 h1 es1 where
    1: "normalizeColor palette h c = Inr (c1, h1)" and
    2: "normalizeEntries palette h1 es = Inr (es1, h')"
    by (auto split: sum.splits)
  from Cons.prems(2) e have wc: "wfColor t n c" by simp
  from normalizeColor_keeps_hex [OF 1 wc assms(3,4) Cons.prems(3) assms(6,7)]
  have "fieldOf h1 (Ref b) name = Str s" .
  with Cons.IH [OF 2] Cons.prems(2) show ?case by simp
qed

lemma normalizeEntries_map_of_Ref:
  assumes "normalizeEntries palette h es = Inr (es', h')"
    and "map_of es scope = Some (Ref b)"
  shows "map_of es' scope = Some (Ref b)"
  using assms
proof (induction es arbitrary: h es')
  case Nil
  then show ?case by simp
next
  case (Cons e es)
  obtain scope0 c where e: "e = (scope0, c)" by (cases e)
  from Cons.prems(1) e obtain c1 h1 es1 where
    1: "normalizeColor palette h c = Inr (c1, h1)" and
    2: "normalizeEntries palette h1 es = Inr (es1, h')" and
    es': "es' = (scope0, c1) # es1"
    by (auto split: sum.splits)
  show ?case
  proof (cases "scope0 = scope")
    case True
    with Cons.prems(2) e have "c = Ref b" by simp
    with normalizeColor_kind [OF 1] have "c1 = Ref b" by auto
    with True show ?thesis by (simp add: es')
  next
    case False
    with Cons.prems(2) e have "map_of es scope = Some (Ref b)" by simp
    from Cons.IH [OF 2 this] False show ?thesis by (simp add: es')
  qed
qed

lemma normalizedThemes_single:
  assumes "normalizedThemes h [(''catppuccin_mocha'', Some t)] = Inr (out, h')"
  obtains bgd scopes h1 scopes' where
    "background h (Some t) = Inr bgd" and "t < length h"
    and "callGetters (scopeGetters t (length h)) (h @ [bgd]) = (scopes, h1)"
    and "normalizeEntries (themeProp h t ''palette'') h1 scopes = Inr (scopes', h')"
    and "out = [scopes']"
proof -
  from assms obtain bgd where bg: "background h (Some t) = Inr bgd"
    by (auto simp: normalizedThemes_def resolveScopes_def split: sum.splits)
  then have t: "t < length h"
    by (auto simp: background_def getMember_def deref_def split: if_splits)
  obtain scopes h1 where cg: "callGetters (scopeGetters t (length h)) (h @ [bgd]) = (scopes, h1)"
    by (cases "callGetters (scopeGetters t (length h)) (h @ [bgd])")
  from assms bg cg obtain scopes' where
    "normalizeEntries (themeProp h t ''palette'') h1 scopes = Inr (scopes', h')" "out = [scopes']"
    by (auto simp: normalizedThemes_def resolveScopes_def split: sum.splits)
  with bg t cg show ?thesis by (rule that)
qed

text \<open>
  One run of the callback on a colour that is not \<^verbatim>\<open>undefined\<close>, with a palette that
  is a table, does not throw, and replaces exactly the strings that do not begin with
  \<^verbatim>\<open>#\<close>.
\<close>

lemma normalizeColor_on_table:
  assumes "load h c \<noteq> Undef"
  shows "\<exists>c' h'. normalizeColor (Obj palette) h c = Inr (c', h')
     \<and> fieldOf h' c' ''fg'' =
         (case fieldOf h c ''fg'' of
            Str s \<Rightarrow> if isHex s then Str s else getProp palette s
          | v \<Rightarrow> v)
     \<and> fieldOf h' c' ''bg'' =
         (case fieldOf h c ''bg'' of
            Str s \<Rightarrow> if isHex s then Str s else getProp palette s
          | v \<Rightarrow> v)"
proof -
  obtain c1 h1 where 1: "normalizeField (Obj palette) ''fg'' h c = Inr (c1, h1)"
    and l1: "load h1 c1 \<noteq> Undef"
    using normalizeField_total [OF assms, of "Obj palette" "''fg''"] by auto
  obtain c2 h2 where 2: "normalizeField (Obj palette) ''bg'' h1 c1 = Inr (c2, h2)"
    using normalizeField_total [OF l1, of "Obj palette" "''bg''"] by auto
  from 1 2 have nc: "normalizeColor (Obj palette) h c = Inr (c2, h2)"
    by (simp add: normalizeColor_def)
  from normalizeColor_spec [OF nc]
  have "fieldOf h2 c2 ''fg'' = normalized (Obj palette) (fieldOf h c ''fg'')"
    and "fieldOf h2 c2 ''bg'' = normalized (Obj palette) (fieldOf h c ''bg'')"
    by simp_all
  with nc show ?thesis
    by (auto simp: normalized_def propOf_def split: jv.splits)
qed

text \<open>
  The pass over the scopes of one theme. A colour object can belong to several scopes, and
  the callback then runs on it once for each of them; what a channel holds at the end is
  fixed as soon as one run gives a value that a further run would leave alone.
\<close>

lemma normalizeColor_field:
  assumes "normalizeColor palette h c = Inr (c', h')" and "name = ''fg'' \<or> name = ''bg''"
  shows "fieldOf h' c' name = normalized palette (fieldOf h c name)"
  using normalizeColor_spec [OF assms(1)] assms(2) by auto

lemma normalizeColor_other:
  assumes "normalizeColor palette h c = Inr (c', h')"
    and "wfColor t n c" and "wfColor t n d" and "t < n" and "name = ''fg'' \<or> name = ''bg''"
  shows "fieldOf h' d name = fieldOf h d name
       \<or> fieldOf h' d name = normalized palette (fieldOf h d name)"
proof -
  from normalizeColor_kind [OF assms(1)]
  consider (val) "h' = h" | (same) "c' = c" "d = c" | (other) "d \<noteq> c"
    by blast
  then show ?thesis
  proof cases
    case val
    then show ?thesis by simp
  next
    case same
    with normalizeColor_field [OF assms(1,5)] show ?thesis by simp
  next
    case other
    from normalizeColor_frame [OF assms(1,2,3,4) other] show ?thesis
      by (simp add: fieldOf_def)
  qed
qed

lemma normalizeEntries_towards:
  assumes "normalizeEntries palette h es = Inr (es', h')"
    and "\<forall>c \<in> snd ` set es. wfColor t n c" and "wfColor t n d" and "t < n"
    and "name = ''fg'' \<or> name = ''bg''"
    and "normalized palette w = w"
    and "normalized palette (fieldOf h d name) = w"
  shows "normalized palette (fieldOf h' d name) = w"
  using assms(1,2,7)
proof (induction es arbitrary: h es')
  case Nil
  then show ?case by simp
next
  case (Cons e es)
  obtain scope c where e: "e = (scope, c)" by (cases e)
  from Cons.prems(1) e obtain c1 h1 es1 where
    1: "normalizeColor palette h c = Inr (c1, h1)" and
    2: "normalizeEntries palette h1 es = Inr (es1, h')"
    by (auto split: sum.splits)
  from Cons.prems(2) e have wc: "wfColor t n c" by simp
  from normalizeColor_other [OF 1 wc assms(3,4,5)] Cons.prems(3) assms(6)
  have "normalized palette (fieldOf h1 d name) = w" by auto
  with Cons.IH [OF 2] Cons.prems(2) show ?case by simp
qed






text \<open>
  Claim C5 says that after normalization every \<^verbatim>\<open>fg\<close> and \<^verbatim>\<open>bg\<close> of every scope is a
  string that begins with \<^verbatim>\<open>#\<close>, none missing or \<^verbatim>\<open>undefined\<close>. The code has no
  check of that kind: a name the palette lacks is replaced by \<^verbatim>\<open>undefined\<close>, a pair
  need not have a \<^verbatim>\<open>bg\<close>, and a theme without \<^verbatim>\<open>ui.statusline\<close> gets the empty pair.
\<close>

theorem C5_missing_color_counterexample:
  "(case parsedThemes
      [(''catppuccin_mocha'',
        [(''ui.background'', Obj [(''bg'', Str ''#111111''), (''fg'', Str ''#eeeeee'')]),
         (''comment'', Obj [(''fg'', Str ''overlay'')]),
         (''palette'', Obj [(''surface'', Str ''#313244'')])])] of
      Inr ([scopes], h) \<Rightarrow>
        scopeField scopes h ''comment'' ''fg'' = Inr Undef \<and>
        scopeField scopes h ''comment'' ''bg'' = Inr Undef \<and>
        scopeField scopes h ''ui.statusline'' ''fg'' = Inr Undef
    | _ \<Rightarrow> False)"
  by code_simp

text \<open>
  Claim C5 as the code has it. For every theme that reaches the renderer (the one entry
  named \<^verbatim>\<open>catppuccin_mocha\<close>, when nothing threw), every \<^verbatim>\<open>fg\<close> and \<^verbatim>\<open>bg\<close> of every
  scope that is a string after normalization begins with \<^verbatim>\<open>#\<close> or is a string that the
  theme's palette holds; so it begins with \<^verbatim>\<open>#\<close> whenever the palette's values do. A
  channel can be missing or \<^verbatim>\<open>undefined\<close>.
\<close>

theorem C5_string_channels:
  assumes "filter (\<lambda>e. fst e = ''catppuccin_mocha'') entries = [(''catppuccin_mocha'', Some t)]"
    and "normalizedThemes h entries = Inr (out, h')"
    and "scopes \<in> set out" and "(scope, c) \<in> set scopes"
    and "name = ''fg'' \<or> name = ''bg''"
    and "fieldOf h' c name = Str s"
  shows "isHex s \<or> (\<exists>key. propOf (themeProp h t ''palette'') key = Str s)"
proof -
  from assms(1,2) have "normalizedThemes h [(''catppuccin_mocha'', Some t)] = Inr (out, h')"
    using normalizedThemes_filter [of h entries] by simp
  then obtain bgd scopes0 h1 scopes' where
    t: "t < length h"
    and cg: "callGetters (scopeGetters t (length h)) (h @ [bgd]) = (scopes0, h1)"
    and ne: "normalizeEntries (themeProp h t ''palette'') h1 scopes0 = Inr (scopes', h')"
    and out: "out = [scopes']"
    by (rule normalizedThemes_single)
  from callGetters_ok [OF ok_scopeGetters _ cg]
  have wf: "\<forall>c \<in> snd ` set scopes0. wfColor t (length h) c" by simp
  from normalizeEntries_good [OF ne wf t] assms(3,4) out
  have "goodColor (themeProp h t ''palette'') h' c" by force
  with assms(5,6) show ?thesis unfolding goodColor_def by blast
qed

theorem C5_string_channels_witness:
  "\<exists>out h'. normalizedThemes
        [[(''inherits'', Str ''catppuccin_mocha'')],
         [(''ui.background'', Obj [(''bg'', Str ''#1e1e2e''), (''fg'', Str ''#cdd6f4'')]),
          (''comment'', Obj [(''fg'', Str ''overlay'')]),
          (''palette'', Obj [(''overlay'', Str ''#6c7086'')])]]
        [(''catppuccin_latte'', Some 1), (''catppuccin_mocha'', Some 1)] = Inr (out, h')
     \<and> fieldOf h' (Own 1 ''comment'') ''fg'' = Str ''#6c7086''
     \<and> (isHex ''#6c7086''
          \<or> (\<exists>key. propOf
                (themeProp
                  [[(''inherits'', Str ''catppuccin_mocha'')],
                   [(''ui.background'', Obj [(''bg'', Str ''#1e1e2e''), (''fg'', Str ''#cdd6f4'')]),
                    (''comment'', Obj [(''fg'', Str ''overlay'')]),
                    (''palette'', Obj [(''overlay'', Str ''#6c7086'')])]]
                  1 ''palette'') key = Str ''#6c7086''))"
proof -
  let ?h = "[[(''inherits'', Str ''catppuccin_mocha'')],
         [(''ui.background'', Obj [(''bg'', Str ''#1e1e2e''), (''fg'', Str ''#cdd6f4'')]),
          (''comment'', Obj [(''fg'', Str ''overlay'')]),
          (''palette'', Obj [(''overlay'', Str ''#6c7086'')])]]"
  let ?es = "[(''catppuccin_latte'', Some 1), (''catppuccin_mocha'', Some (1::nat))]"
  have "case normalizedThemes ?h ?es of
          Inr (out, h') \<Rightarrow>
            out = [hd out] \<and> (''comment'', Own 1 ''comment'') \<in> set (hd out)
            \<and> fieldOf h' (Own 1 ''comment'') ''fg'' = Str ''#6c7086''
        | Inl err \<Rightarrow> False"
    by code_simp
  then obtain out h' where r: "normalizedThemes ?h ?es = Inr (out, h')"
    and o: "out = [hd out]" and m: "(''comment'', Own 1 ''comment'') \<in> set (hd out)"
    and f: "fieldOf h' (Own 1 ''comment'') ''fg'' = Str ''#6c7086''"
    by (auto split: sum.splits)
  have filt: "filter (\<lambda>e. fst e = ''catppuccin_mocha'') ?es = [(''catppuccin_mocha'', Some 1)]"
    by simp
  from o have i: "hd out \<in> set out" by (metis list.set_intros(1))
  from C5_string_channels [OF filt r i m _ f]
  have "isHex ''#6c7086'' \<or> (\<exists>key. propOf (themeProp ?h 1 ''palette'') key = Str ''#6c7086'')"
    by simp
  with r f show ?thesis by blast
qed

text \<open>
  Claim C10. For every processed theme whose \<^verbatim>\<open>ui.background\<close> has no \<^verbatim>\<open>fg\<close>, or a
  falsy one, the object \<^verbatim>\<open>background\<close> has the \<^verbatim>\<open>fg\<close> \<^verbatim>\<open>"#ffaaaa"\<close> and the
  \<^verbatim>\<open>bg\<close> of the theme as it is (possibly \<^verbatim>\<open>undefined\<close>); the fallback
  \<^verbatim>\<open>() => background.fg\<close>, in which the fallback chains end, returns that string in
  every later store; and the renderer, when the theme reaches it, reads that string as
  \<^verbatim>\<open>theme["ui.background"].fg\<close>.
\<close>

theorem C10_background_default:
  assumes "themeProp h t ''ui.background'' \<noteq> Undef"
    and "\<not> truthy (propOf (themeProp h t ''ui.background'') ''fg'')"
  shows "background h (Some t) =
           Inr [(''bg'', propOf (themeProp h t ''ui.background'') ''bg''),
                (''fg'', Str ''#ffaaaa'')]
       \<and> fst (backgroundFg (length h)
                (h @ [[(''bg'', propOf (themeProp h t ''ui.background'') ''bg''),
                       (''fg'', Str ''#ffaaaa'')]] @ xs)) = Val (Str ''#ffaaaa'')
       \<and> (\<forall>out h'. normalizedThemes h [(''catppuccin_mocha'', Some t)] = Inr (out, h') \<longrightarrow>
             (\<exists>scopes. out = [scopes]
                \<and> scopeField scopes h' ''ui.background'' ''fg'' = Inr (Str ''#ffaaaa'')))"
proof -
  let ?bgd = "[(''bg'', propOf (themeProp h t ''ui.background'') ''bg''), (''fg'', Str ''#ffaaaa'')]"
  from assms have a: "background h (Some t) = Inr ?bgd"
    by (auto simp: background_def getMember_def themeProp_def propOf_def split: jv.splits)
  have b: "fst (backgroundFg (length h) (h @ [?bgd] @ xs)) = Val (Str ''#ffaaaa'')"
    by (simp add: backgroundFg_def deref_def nth_append propOf_def getProp_def)
  have c: "\<exists>scopes. out = [scopes]
                \<and> scopeField scopes h' ''ui.background'' ''fg'' = Inr (Str ''#ffaaaa'')"
    if "normalizedThemes h [(''catppuccin_mocha'', Some t)] = Inr (out, h')" for out h'
  proof -
    from that obtain bgd scopes0 h1 scopes' where
      bg: "background h (Some t) = Inr bgd" and t: "t < length h"
      and cg: "callGetters (scopeGetters t (length h)) (h @ [bgd]) = (scopes0, h1)"
      and ne: "normalizeEntries (themeProp h t ''palette'') h1 scopes0 = Inr (scopes', h')"
      and out: "out = [scopes']"
      by (rule normalizedThemes_single)
    from bg a have bgd: "bgd = ?bgd" by simp
    from callGetters_ok [OF ok_scopeGetters _ cg] obtain ys where
      h1: "h1 = (h @ [bgd]) @ ys" and wf: "\<forall>c \<in> snd ` set scopes0. wfColor t (length h) c"
      by auto
    have f1: "fieldOf h1 (Ref (length h)) ''fg'' = Str ''#ffaaaa''"
      by (simp add: h1 bgd fieldOf_def load_def deref_def nth_append propOf_def getProp_def)
    have "fieldOf h' (Ref (length h)) ''fg'' = Str ''#ffaaaa''"
      by (rule normalizeEntries_keeps_hex [OF ne wf t _ f1]) (simp_all add: isHex_def)
    then have "getMember (load h' (Ref (length h))) ''fg'' = Inr (Str ''#ffaaaa'')"
      by (auto simp: fieldOf_def getMember_def propOf_def split: jv.splits)
    moreover have "map_of scopes' ''ui.background'' = Some (Ref (length h))"
      by (rule normalizeEntries_map_of_Ref [OF ne scopeGetters_background_first [OF cg]])
    ultimately have "scopeField scopes' h' ''ui.background'' ''fg'' = Inr (Str ''#ffaaaa'')"
      by (simp add: scopeField_def)
    with out show ?thesis by blast
  qed
  from a b c show ?thesis by blast
qed

theorem C10_background_default_witness:
  "background [[(''ui.background'', Obj [(''bg'', Str ''#1e1e2e'')]), (''palette'', Obj [])]] (Some 0)
     = Inr [(''bg'', Str ''#1e1e2e''), (''fg'', Str ''#ffaaaa'')]
   \<and> (\<exists>scopes h'.
         normalizedThemes [[(''ui.background'', Obj [(''bg'', Str ''#1e1e2e'')]), (''palette'', Obj [])]]
           [(''catppuccin_mocha'', Some 0)] = Inr ([scopes], h')
         \<and> scopeField scopes h' ''ui.background'' ''fg'' = Inr (Str ''#ffaaaa''))"
proof -
  let ?h = "[[(''ui.background'', Obj [(''bg'', Str ''#1e1e2e'')]), (''palette'', Obj [])]]"
  have tp: "themeProp ?h 0 ''ui.background'' = Obj [(''bg'', Str ''#1e1e2e'')]"
    by code_simp
  have 1: "themeProp ?h 0 ''ui.background'' \<noteq> Undef"
    by (simp add: tp)
  have 2: "\<not> truthy (propOf (themeProp ?h 0 ''ui.background'') ''fg'')"
    by (simp add: tp propOf_def getProp_def objectPrototype_def)
  have "case normalizedThemes ?h [(''catppuccin_mocha'', Some 0)] of
          Inr (out, h') \<Rightarrow> True | Inl err \<Rightarrow> False"
    by code_simp
  then obtain out h' where r: "normalizedThemes ?h [(''catppuccin_mocha'', Some 0)] = Inr (out, h')"
    by (auto split: sum.splits)
  from C10_background_default [OF 1 2, of "[]"] r
  have "background ?h (Some 0) = Inr [(''bg'', Str ''#1e1e2e''), (''fg'', Str ''#ffaaaa'')]"
    and "\<exists>scopes. out = [scopes]
           \<and> scopeField scopes h' ''ui.background'' ''fg'' = Inr (Str ''#ffaaaa'')"
    by (simp_all add: tp propOf_def getProp_def objectPrototype_def)
  with r show ?thesis by blast
qed

section \<open>The index generator\<close>







end
